theory Spec2Isabelle
  imports Main "HOL-Library.Word"
begin

section \<open>The reply decoder of zktraffic (zktraffic/base/server\_message.py)\<close>

text \<open>
  A shallow embedding of \<^verbatim>\<open>server_message.py\<close>: the registry kept by the metaclass
  \<^verbatim>\<open>ServerMessageType\<close>, the message classes with their constructors, the class methods
  \<^verbatim>\<open>from_payload\<close>, \<^verbatim>\<open>handler_for\<close> and \<^verbatim>\<open>with_params\<close>, and the \<^verbatim>\<open>name\<close> property.
  Python's integers are \<^typ>\<open>int\<close>, a raised exception is the left summand of a result, and
  the dictionary \<^verbatim>\<open>requests_xids\<close>, which \<^verbatim>\<open>handler_for\<close> mutates, is passed in and
  returned.
\<close>

subsection \<open>Exceptions\<close>

text \<open>
  The exceptions the module raises or catches.  A message built with \<^verbatim>\<open>%\<close> is kept as
  its format string together with the arguments it is applied to.
\<close>

datatype error =
    DeserializationError string "int list"
  | StringTooLong
  | ValueError string "int list"
  | AttributeError string

type_synonym bytes = "8 word list"

subsection \<open>What the module imports\<close>

text \<open>
  The module \<^verbatim>\<open>zookeeper.py\<close> is not part of the sources at hand, so the operation codes
  \<^verbatim>\<open>OpCodes.*\<close> and the two reserved transaction ids that \<^verbatim>\<open>server_message.py\<close> imports from
  it are parameters of the model.
\<close>

record zookeeper =
  CONNECT :: int
  PING :: int
  SETAUTH :: int
  GETDATA :: int
  EXISTS :: int
  SYNC :: int
  SETDATA :: int
  DELETE :: int
  GETCHILDREN :: int
  GETCHILDREN2 :: int
  CREATE :: int
  CREATE2 :: int
  SETWATCHES :: int
  MULTI :: int
  PING_XID :: int
  WATCH_XID :: int

text \<open>\<^verbatim>\<open>MultiHeader(type, done, err)\<close>, the record of one header of a multi reply.\<close>

datatype MultiHeader = MultiHeader int bool int

text \<open>
  The readers of \<^verbatim>\<open>util.py\<close> are not part of the sources at hand either, so they are
  parameters too.  Each takes the buffer and an offset and either raises or returns the
  value read together with the offset behind it.
\<close>

record readers =
  read_number :: "bytes \<Rightarrow> nat \<Rightarrow> error + (int \<times> nat)"
  read_reply_header :: "bytes \<Rightarrow> nat \<Rightarrow> error + ((int \<times> int \<times> int) \<times> nat)"
  read_int_int :: "bytes \<Rightarrow> nat \<Rightarrow> error + ((int \<times> int) \<times> nat)"
  read_int_int_long :: "bytes \<Rightarrow> nat \<Rightarrow> error + ((int \<times> int \<times> int) \<times> nat)"
  read_int_bool_int :: "bytes \<Rightarrow> nat \<Rightarrow> error + ((int \<times> bool \<times> int) \<times> nat)"
  read_string :: "bytes \<Rightarrow> nat \<Rightarrow> error + (string \<times> nat)"
  read_buffer :: "bytes \<Rightarrow> nat \<Rightarrow> error + (bytes \<times> nat)"
  read_bool :: "bytes \<Rightarrow> nat \<Rightarrow> error + (bool \<times> nat)"

definition INT_STRUCT_size :: nat where
  \<comment> \<open>Modelled from the spec: \<^verbatim>\<open>INT_STRUCT\<close> is declared in \<^verbatim>\<open>util.py\<close>, which is missing;
     the spec speaks of a 4-byte signed length prefix.\<close>
  "INT_STRUCT_size = 4"

subsection \<open>Classes and instances\<close>

text \<open>
  Every class the metaclass creates, in the order of the module: the anonymous base
  \<^verbatim>\<open>ClientMessageType\<close> of line 60 first, then the classes of the \<^verbatim>\<open>class\<close> statements.
\<close>

datatype cls =
    ClientMessageType
  | ServerMessage
  | WatchEvent
  | Reply
  | ConnectReply
  | PingReply
  | AuthReply
  | GetDataReply
  | ExistsReply
  | SyncReply
  | SetDataReply
  | DeleteReply
  | GetChildrenReply
  | GetChildren2Reply
  | CreateReply
  | Create2Reply
  | SetWatchesReply
  | MultiReply

text \<open>The attributes that the constructors of the subclasses set besides the slots.\<close>

datatype attrs =
    No_attrs
  | WatchEvent_attrs (self_event_type: int) (self_state: int)
  | ConnectReply_attrs (self_protocol: int) (self_timeout: int) (self_session: int)
      (self_passwd: bytes) (self_readonly: bool)
  | GetChildrenReply_attrs (self_count: int)
  | MultiReply_attrs (self_headers: "MultiHeader list")

text \<open>An instance: its class, the slots of \<^verbatim>\<open>ServerMessage\<close> and the attributes.\<close>

record message =
  self_class :: cls
  self_timestamp :: int
  self_auth :: string
  self_xid :: int
  self_zxid :: int
  self_error :: int
  self_path :: string
  self_client :: string
  self_server :: string
  self_attrs :: attrs

text \<open>\<^verbatim>\<open>__name__\<close> of a class.\<close>

fun class_name :: "cls \<Rightarrow> string" where
  "class_name ClientMessageType = ''ClientMessageType''"
| "class_name ServerMessage = ''ServerMessage''"
| "class_name WatchEvent = ''WatchEvent''"
| "class_name Reply = ''Reply''"
| "class_name ConnectReply = ''ConnectReply''"
| "class_name PingReply = ''PingReply''"
| "class_name AuthReply = ''AuthReply''"
| "class_name GetDataReply = ''GetDataReply''"
| "class_name ExistsReply = ''ExistsReply''"
| "class_name SyncReply = ''SyncReply''"
| "class_name SetDataReply = ''SetDataReply''"
| "class_name DeleteReply = ''DeleteReply''"
| "class_name GetChildrenReply = ''GetChildrenReply''"
| "class_name GetChildren2Reply = ''GetChildren2Reply''"
| "class_name CreateReply = ''CreateReply''"
| "class_name Create2Reply = ''Create2Reply''"
| "class_name SetWatchesReply = ''SetWatchesReply''"
| "class_name MultiReply = ''MultiReply''"

text \<open>
  The class attribute \<^verbatim>\<open>OPCODE\<close> as attribute lookup finds it: \<^verbatim>\<open>None\<close> from the metaclass
  for the classes that declare none, \<^verbatim>\<open>None\<close> for \<^verbatim>\<open>WatchEvent\<close>, the declared operation code
  for every reply class.
\<close>

fun OPCODE :: "zookeeper \<Rightarrow> cls \<Rightarrow> int option" where
  "OPCODE zk ClientMessageType = None"
| "OPCODE zk ServerMessage = None"
| "OPCODE zk WatchEvent = None"
| "OPCODE zk Reply = None"
| "OPCODE zk ConnectReply = Some (CONNECT zk)"
| "OPCODE zk PingReply = Some (PING zk)"
| "OPCODE zk AuthReply = Some (SETAUTH zk)"
| "OPCODE zk GetDataReply = Some (GETDATA zk)"
| "OPCODE zk ExistsReply = Some (EXISTS zk)"
| "OPCODE zk SyncReply = Some (SYNC zk)"
| "OPCODE zk SetDataReply = Some (SETDATA zk)"
| "OPCODE zk DeleteReply = Some (DELETE zk)"
| "OPCODE zk GetChildrenReply = Some (GETCHILDREN zk)"
| "OPCODE zk GetChildren2Reply = Some (GETCHILDREN2 zk)"
| "OPCODE zk CreateReply = Some (CREATE zk)"
| "OPCODE zk Create2Reply = Some (CREATE2 zk)"
| "OPCODE zk SetWatchesReply = Some (SETWATCHES zk)"
| "OPCODE zk MultiReply = Some (MULTI zk)"

subsection \<open>The registry of the metaclass\<close>

text \<open>
  \<^verbatim>\<open>ServerMessageType.TYPES\<close> is a dictionary from operation codes to classes; \<^verbatim>\<open>None\<close> is
  never stored as a key (line 51), so the keys are integers.
\<close>

type_synonym registry = "int \<rightharpoonup> cls"

text \<open>
  \<^verbatim>\<open>ServerMessageType.__new__\<close> (lines 46-53) for the class \<open>obj\<close> whose attribute
  \<^verbatim>\<open>OPCODE\<close> is \<open>opcode\<close>: the registry is returned updated, or \<^verbatim>\<open>ValueError\<close> is raised.
\<close>

definition ServerMessageType_new :: "registry \<Rightarrow> cls \<Rightarrow> int option \<Rightarrow> error + registry" where
  "ServerMessageType_new TYPES obj opcode =
     (if (case opcode of None \<Rightarrow> False | Some k \<Rightarrow> TYPES k \<noteq> None)
      then Inl (ValueError ''Duplicate class/opcode name: %s'' [the opcode])
      else if opcode \<noteq> None then Inr (TYPES(the opcode \<mapsto> obj))
      else Inr TYPES)"

text \<open>\<^verbatim>\<open>ServerMessageType.get\<close> (lines 55-57); the key may be \<^verbatim>\<open>None\<close>.\<close>

definition ServerMessageType_get :: "registry \<Rightarrow> int option \<Rightarrow> cls option \<Rightarrow> cls option" where
  "ServerMessageType_get TYPES key default' =
     (case key of
        None \<Rightarrow> default'
      | Some k \<Rightarrow> (case TYPES k of None \<Rightarrow> default' | Some c \<Rightarrow> Some c))"

text \<open>
  Importing the module creates the classes one after the other, each through
  \<^verbatim>\<open>__new__\<close>; the first \<^verbatim>\<open>ValueError\<close> aborts the import.
\<close>

fun create_classes :: "zookeeper \<Rightarrow> cls list \<Rightarrow> registry \<Rightarrow> error + registry" where
  "create_classes zk [] TYPES = Inr TYPES"
| "create_classes zk (obj # rest) TYPES =
     (case ServerMessageType_new TYPES obj (OPCODE zk obj) of
        Inl e \<Rightarrow> Inl e
      | Inr TYPES' \<Rightarrow> create_classes zk rest TYPES')"

definition module_classes :: "cls list" where
  "module_classes =
     [ClientMessageType, ServerMessage, WatchEvent, Reply, ConnectReply, PingReply, AuthReply,
      GetDataReply, ExistsReply, SyncReply, SetDataReply, DeleteReply, GetChildrenReply,
      GetChildren2Reply, CreateReply, Create2Reply, SetWatchesReply, MultiReply]"

definition module_TYPES :: "zookeeper \<Rightarrow> error + registry" where
  "module_TYPES zk = create_classes zk module_classes Map.empty"

subsection \<open>Constructors\<close>

text \<open>
  \<^verbatim>\<open>ServerMessage.__init__\<close> (lines 63-71) on an instance of class \<open>cl\<close> whose subclass
  constructor has set the attributes \<open>at\<close> before calling it.
\<close>

definition ServerMessage_init ::
  "cls \<Rightarrow> attrs \<Rightarrow> int \<Rightarrow> int \<Rightarrow> int \<Rightarrow> string \<Rightarrow> string \<Rightarrow> string \<Rightarrow> message" where
  "ServerMessage_init cl at xid zxid error path client server =
     \<lparr> self_class = cl, self_timestamp = 0, self_auth = '''', self_xid = xid, self_zxid = zxid,
       self_error = error, self_path = path, self_client = client, self_server = server,
       self_attrs = at \<rparr>"

text \<open>\<^verbatim>\<open>WatchEvent.__init__\<close> (lines 143-146).\<close>

definition WatchEvent_init :: "cls \<Rightarrow> int \<Rightarrow> int \<Rightarrow> string \<Rightarrow> string \<Rightarrow> string \<Rightarrow> message" where
  "WatchEvent_init cl event_type state path client server =
     ServerMessage_init cl (WatchEvent_attrs event_type state) (- 1) (- 1) 0 path client server"

text \<open>\<^verbatim>\<open>ConnectReply.__init__\<close> (lines 181-188).\<close>

definition ConnectReply_init ::
  "cls \<Rightarrow> int \<Rightarrow> int \<Rightarrow> int \<Rightarrow> bytes \<Rightarrow> bool \<Rightarrow> string \<Rightarrow> string \<Rightarrow> message" where
  "ConnectReply_init cl protocol timeout session passwd readonly client server =
     ServerMessage_init cl (ConnectReply_attrs protocol timeout session passwd readonly)
       0 (- 1) 0 '''' client server"

text \<open>\<^verbatim>\<open>GetChildrenReply.__init__\<close> (lines 243-245).\<close>

definition GetChildrenReply_init ::
  "cls \<Rightarrow> int \<Rightarrow> int \<Rightarrow> int \<Rightarrow> int \<Rightarrow> string \<Rightarrow> string \<Rightarrow> message" where
  "GetChildrenReply_init cl xid zxid error count client server =
     ServerMessage_init cl (GetChildrenReply_attrs count) xid zxid error '''' client server"

text \<open>\<^verbatim>\<open>MultiReply.__init__\<close> (lines 288-290).\<close>

definition MultiReply_init ::
  "cls \<Rightarrow> int \<Rightarrow> int \<Rightarrow> int \<Rightarrow> string \<Rightarrow> MultiHeader \<Rightarrow> string \<Rightarrow> message" where
  "MultiReply_init cl xid zxid error client first_header server =
     ServerMessage_init cl (MultiReply_attrs [first_header]) xid zxid error '''' client server"

subsection \<open>The class methods \<^verbatim>\<open>with_params\<close>\<close>

text \<open>\<^verbatim>\<open>ServerMessage.with_params\<close> (lines 84-102), inherited by the plain replies.\<close>

definition ServerMessage_with_params ::
  "readers \<Rightarrow> cls \<Rightarrow> int \<Rightarrow> int \<Rightarrow> int \<Rightarrow> bytes \<Rightarrow> nat \<Rightarrow> string \<Rightarrow> string \<Rightarrow> error + message" where
  "ServerMessage_with_params rd cl xid zxid error data offset client server =
     Inr (ServerMessage_init cl No_attrs xid zxid error '''' client server)"

text \<open>
  The \<^verbatim>\<open>try\<close> statement of \<^verbatim>\<open>WatchEvent.with_params\<close> (lines 151-154) as a function from the
  local \<open>offset\<close> to the locals \<open>(path, offset)\<close> behind it: when \<^verbatim>\<open>read_string\<close> raises
  \<^verbatim>\<open>StringTooLong\<close> the assignment of line 152 has not happened, so \<open>offset\<close> keeps its value.
\<close>

definition WatchEvent_try :: "readers \<Rightarrow> bytes \<Rightarrow> nat \<Rightarrow> error + (string \<times> nat)" where
  "WatchEvent_try rd data offset =
     (case read_string rd data offset of
        Inr (path, offset') \<Rightarrow> Inr (path, offset')
      | Inl StringTooLong \<Rightarrow> Inr (''path-too-long'', offset)
      | Inl e \<Rightarrow> Inl e)"

text \<open>\<^verbatim>\<open>WatchEvent.with_params\<close> (lines 148-155).\<close>

definition WatchEvent_with_params ::
  "readers \<Rightarrow> cls \<Rightarrow> int \<Rightarrow> int \<Rightarrow> int \<Rightarrow> bytes \<Rightarrow> nat \<Rightarrow> string \<Rightarrow> string \<Rightarrow> error + message" where
  "WatchEvent_with_params rd cl xid zxid error data offset client server =
     (case read_int_int rd data offset of
        Inl e \<Rightarrow> Inl e
      | Inr ((event_type, state), offset) \<Rightarrow>
          (case WatchEvent_try rd data offset of
             Inl e \<Rightarrow> Inl e
           | Inr (path, offset) \<Rightarrow> Inr (WatchEvent_init cl event_type state path client server)))"

text \<open>\<^verbatim>\<open>ConnectReply.with_params\<close> (lines 190-201).\<close>

definition ConnectReply_with_params ::
  "readers \<Rightarrow> cls \<Rightarrow> int \<Rightarrow> int \<Rightarrow> int \<Rightarrow> bytes \<Rightarrow> nat \<Rightarrow> string \<Rightarrow> string \<Rightarrow> error + message" where
  "ConnectReply_with_params rd cl xid zxid error data offset client server =
     (let offset = INT_STRUCT_size in
      case read_int_int_long rd data offset of
        Inl e \<Rightarrow> Inl e
      | Inr ((protocol, timeout, session), offset) \<Rightarrow>
          (case read_buffer rd data offset of
             Inl e \<Rightarrow> Inl e
           | Inr (passwd, offset) \<Rightarrow>
               (case read_bool rd data offset of
                  Inl e \<Rightarrow> Inl e
                | Inr (readonly, offset) \<Rightarrow>
                    Inr (ConnectReply_init cl protocol timeout session passwd readonly
                           client server))))"

text \<open>\<^verbatim>\<open>GetChildrenReply.with_params\<close> (lines 247-250).\<close>

definition GetChildrenReply_with_params ::
  "readers \<Rightarrow> cls \<Rightarrow> int \<Rightarrow> int \<Rightarrow> int \<Rightarrow> bytes \<Rightarrow> nat \<Rightarrow> string \<Rightarrow> string \<Rightarrow> error + message" where
  "GetChildrenReply_with_params rd cl xid zxid error data offset client server =
     (case (if error = 0 then read_number rd data offset else Inr (0, 0)) of
        Inl e \<Rightarrow> Inl e
      | Inr (count, _) \<Rightarrow> Inr (GetChildrenReply_init cl xid zxid error count client server))"

text \<open>
  The \<^verbatim>\<open>try\<close> statement of \<^verbatim>\<open>CreateReply.with_params\<close> (lines 266-269), again as a function to
  the locals \<open>(path, offset)\<close> behind it.
\<close>

definition CreateReply_try :: "readers \<Rightarrow> int \<Rightarrow> bytes \<Rightarrow> nat \<Rightarrow> error + (string \<times> nat)" where
  "CreateReply_try rd error data offset =
     (case (if error = 0 then read_string rd data offset else Inr ('''', offset)) of
        Inr (path, offset') \<Rightarrow> Inr (path, offset')
      | Inl StringTooLong \<Rightarrow> Inr (''path-too-long'', offset)
      | Inl e \<Rightarrow> Inl e)"

text \<open>\<^verbatim>\<open>CreateReply.with_params\<close> (lines 264-270); the class has no constructor of its own.\<close>

definition CreateReply_with_params ::
  "readers \<Rightarrow> cls \<Rightarrow> int \<Rightarrow> int \<Rightarrow> int \<Rightarrow> bytes \<Rightarrow> nat \<Rightarrow> string \<Rightarrow> string \<Rightarrow> error + message" where
  "CreateReply_with_params rd cl xid zxid error data offset client server =
     (case CreateReply_try rd error data offset of
        Inl e \<Rightarrow> Inl e
      | Inr (path, offset) \<Rightarrow> Inr (ServerMessage_init cl No_attrs xid zxid error path client server))"

text \<open>\<^verbatim>\<open>MultiReply.with_params\<close> (lines 292-295).\<close>

definition MultiReply_with_params ::
  "readers \<Rightarrow> cls \<Rightarrow> int \<Rightarrow> int \<Rightarrow> int \<Rightarrow> bytes \<Rightarrow> nat \<Rightarrow> string \<Rightarrow> string \<Rightarrow> error + message" where
  "MultiReply_with_params rd cl xid zxid error data offset client server =
     (case read_int_bool_int rd data offset of
        Inl e \<Rightarrow> Inl e
      | Inr ((first_opcode, done, err), _) \<Rightarrow>
          Inr (MultiReply_init cl xid zxid error client (MultiHeader first_opcode done err) server))"

text \<open>
  \<^verbatim>\<open>handler.with_params(...)\<close>: the method the class \<open>cl\<close> resolves to.  The anonymous
  base class of line 60 derives from \<^verbatim>\<open>object\<close> alone and has no such method.
\<close>

fun with_params ::
  "readers \<Rightarrow> cls \<Rightarrow> int \<Rightarrow> int \<Rightarrow> int \<Rightarrow> bytes \<Rightarrow> nat \<Rightarrow> string \<Rightarrow> string \<Rightarrow> error + message" where
  "with_params rd ClientMessageType = (\<lambda>xid zxid error data offset client server.
     Inl (AttributeError ''with_params''))"
| "with_params rd WatchEvent = WatchEvent_with_params rd WatchEvent"
| "with_params rd ConnectReply = ConnectReply_with_params rd ConnectReply"
| "with_params rd GetChildrenReply = GetChildrenReply_with_params rd GetChildrenReply"
| "with_params rd GetChildren2Reply = GetChildrenReply_with_params rd GetChildren2Reply"
| "with_params rd CreateReply = CreateReply_with_params rd CreateReply"
| "with_params rd Create2Reply = CreateReply_with_params rd Create2Reply"
| "with_params rd MultiReply = MultiReply_with_params rd MultiReply"
| "with_params rd cl = ServerMessage_with_params rd cl"

subsection \<open>Decoding a payload\<close>

text \<open>
  \<^verbatim>\<open>ServerMessage.handler_for\<close> (lines 120-133).  \<^verbatim>\<open>requests_xids.pop(xid, None)\<close> returns
  the entry and removes it; the dictionary behind the call is the second component.
\<close>

definition handler_for ::
  "zookeeper \<Rightarrow> registry \<Rightarrow> int \<Rightarrow> (int \<rightharpoonup> int) \<Rightarrow> cls option \<times> (int \<rightharpoonup> int)" where
  "handler_for zk TYPES xid requests_xids =
     (if xid = WATCH_XID zk then (Some WatchEvent, requests_xids)
      else if xid = PING_XID zk then (Some PingReply, requests_xids)
      else
        (let request_type = requests_xids xid;
             requests_xids = requests_xids(xid := None)
         in (ServerMessageType_get TYPES request_type None, requests_xids)))"

text \<open>
  \<^verbatim>\<open>ServerMessage.from_payload\<close> (lines 104-118): the message or the exception, and the
  dictionary \<^verbatim>\<open>requests_xids\<close> as the call leaves it.
\<close>

definition from_payload ::
  "zookeeper \<Rightarrow> readers \<Rightarrow> registry \<Rightarrow> bytes \<Rightarrow> string \<Rightarrow> string \<Rightarrow> (int \<rightharpoonup> int) \<Rightarrow>
     (error + message) \<times> (int \<rightharpoonup> int)" where
  "from_payload zk rd TYPES data client server requests_xids =
     (case read_number rd data 0 of
        Inl e \<Rightarrow> (Inl e, requests_xids)
      | Inr (reply_size, offset) \<Rightarrow>
          if reply_size \<le> 0
          then (Inl (DeserializationError ''Bad reply length: %d'' [reply_size]), requests_xids)
          else
            (case read_reply_header rd data offset of
               Inl e \<Rightarrow> (Inl e, requests_xids)
             | Inr ((xid, zxid, err), offset) \<Rightarrow>
                 (case handler_for zk TYPES xid requests_xids of
                    (Some handler, requests_xids) \<Rightarrow>
                      (with_params rd handler xid zxid err data offset client server,
                       requests_xids)
                  | (None, requests_xids) \<Rightarrow>
                      (Inl (DeserializationError ''No handler for xid=%s'' [xid]),
                       requests_xids))))"

subsection \<open>The property \<^verbatim>\<open>name\<close>\<close>

text \<open>\<^verbatim>\<open>ServerMessage.name\<close> (lines 76-78).\<close>

definition ServerMessage_name :: "message \<Rightarrow> string" where
  "ServerMessage_name self =
     (if self_error self = 0 then '''' else ''Failed'') @ class_name (self_class self)"

text \<open>\<^verbatim>\<open>WatchEvent.EVENT_TYPES\<close> (lines 157-163), a dictionary with a default.\<close>

definition EVENT_TYPES :: "int \<Rightarrow> string" where
  "EVENT_TYPES event_type =
     (if event_type = - 1 then ''None''
      else if event_type = 1 then ''NodeCreated''
      else if event_type = 2 then ''NodeDeleted''
      else if event_type = 3 then ''NodeDataChanged''
      else if event_type = 4 then ''NodeChildrenChanged''
      else ''UnknownWatchEvent'')"

text \<open>
  \<^verbatim>\<open>self.name\<close>: \<^verbatim>\<open>WatchEvent.name\<close> (lines 165-167), \<^verbatim>\<open>ConnectReply.name\<close> (lines 203-205),
  and the inherited property for every other class.
\<close>

definition name :: "message \<Rightarrow> string" where
  "name self =
     (case self_class self of
        WatchEvent \<Rightarrow> EVENT_TYPES (self_event_type (self_attrs self))
      | ConnectReply \<Rightarrow>
          (if self_timeout (self_attrs self) > 0 then ServerMessage_name self
           else ''SessionExpiration'')
      | _ \<Rightarrow> ServerMessage_name self)"

subsection \<open>An instance of the imported names\<close>

text \<open>
  The theorems below hold for every choice of the imported constants and readers.  To run
  the decoder on concrete buffers, this section supplies one choice, following the wire
  format of the service: fields in network byte order, signed integers in two's complement.
\<close>

definition zookeeper_consts :: zookeeper where
  \<comment> \<open>Modelled from the spec: \<^verbatim>\<open>OpCodes\<close>, \<^verbatim>\<open>PING_XID\<close> and \<^verbatim>\<open>WATCH_XID\<close> of \<^verbatim>\<open>zookeeper.py\<close>,
     which is missing.  The spec fixes no numbers; these are the operation codes of the
     service's protocol, the watch sentinel \<open>-1\<close> and the keepalive sentinel \<open>-2\<close>.\<close>
  "zookeeper_consts =
     \<lparr> CONNECT = 0, PING = 11, SETAUTH = 100, GETDATA = 4, EXISTS = 3, SYNC = 9,
       SETDATA = 5, DELETE = 2, GETCHILDREN = 8, GETCHILDREN2 = 12, CREATE = 1,
       CREATE2 = 15, SETWATCHES = 101, MULTI = 14, PING_XID = - 2, WATCH_XID = - 1 \<rparr>"

text \<open>The value of \<open>n\<close> bytes at \<open>offset\<close>, most significant byte first, as a signed number.\<close>

definition unpack_from :: "nat \<Rightarrow> bytes \<Rightarrow> nat \<Rightarrow> int option" where
  \<comment> \<open>Modelled from the spec: the fixed-width readers of \<^verbatim>\<open>util.py\<close>, which is missing, take
     a buffer and an offset and fail when the field runs past the end of the buffer.\<close>
  "unpack_from n data offset =
     (if offset + n \<le> length data
      then
        (let v = foldl (\<lambda>acc b. acc * 256 + uint b) 0 (take n (drop offset data))
         in Some (if v \<ge> 2 ^ (8 * n - 1) then v - 2 ^ (8 * n) else v))
      else None)"

definition util_read_int :: "nat \<Rightarrow> bytes \<Rightarrow> nat \<Rightarrow> error + (int \<times> nat)" where
  \<comment> \<open>Modelled from the spec: a fixed-width integer reader of \<open>n\<close> bytes, returning the value
     and the advanced offset.\<close>
  "util_read_int n data offset =
     (case unpack_from n data offset of
        None \<Rightarrow> Inl (DeserializationError ''Cannot unpack %d bytes at offset %d'' [int n, int offset])
      | Some v \<Rightarrow> Inr (v, offset + n))"

definition util_read_bool :: "bytes \<Rightarrow> nat \<Rightarrow> error + (bool \<times> nat)" where
  \<comment> \<open>Modelled from the spec: the boolean reader, one byte.\<close>
  "util_read_bool data offset =
     (case util_read_int 1 data offset of
        Inl e \<Rightarrow> Inl e
      | Inr (v, offset) \<Rightarrow> Inr (v \<noteq> 0, offset))"

definition util_read_reply_header :: "bytes \<Rightarrow> nat \<Rightarrow> error + ((int \<times> int \<times> int) \<times> nat)" where
  \<comment> \<open>Modelled from the spec: transaction id (32-bit), server transaction id (64-bit),
     error code (32-bit).\<close>
  "util_read_reply_header data offset =
     (case util_read_int 4 data offset of
        Inl e \<Rightarrow> Inl e
      | Inr (xid, offset) \<Rightarrow>
          (case util_read_int 8 data offset of
             Inl e \<Rightarrow> Inl e
           | Inr (zxid, offset) \<Rightarrow>
               (case util_read_int 4 data offset of
                  Inl e \<Rightarrow> Inl e
                | Inr (err, offset) \<Rightarrow> Inr ((xid, zxid, err), offset))))"

definition util_read_int_int :: "bytes \<Rightarrow> nat \<Rightarrow> error + ((int \<times> int) \<times> nat)" where
  \<comment> \<open>Modelled from the spec: two 32-bit integers.\<close>
  "util_read_int_int data offset =
     (case util_read_int 4 data offset of
        Inl e \<Rightarrow> Inl e
      | Inr (a, offset) \<Rightarrow>
          (case util_read_int 4 data offset of
             Inl e \<Rightarrow> Inl e
           | Inr (b, offset) \<Rightarrow> Inr ((a, b), offset)))"

definition util_read_int_int_long :: "bytes \<Rightarrow> nat \<Rightarrow> error + ((int \<times> int \<times> int) \<times> nat)" where
  \<comment> \<open>Modelled from the spec: two 32-bit integers and a 64-bit integer.\<close>
  "util_read_int_int_long data offset =
     (case util_read_int_int data offset of
        Inl e \<Rightarrow> Inl e
      | Inr ((a, b), offset) \<Rightarrow>
          (case util_read_int 8 data offset of
             Inl e \<Rightarrow> Inl e
           | Inr (c, offset) \<Rightarrow> Inr ((a, b, c), offset)))"

definition util_read_int_bool_int :: "bytes \<Rightarrow> nat \<Rightarrow> error + ((int \<times> bool \<times> int) \<times> nat)" where
  \<comment> \<open>Modelled from the spec: a 32-bit integer, a boolean and a 32-bit integer.\<close>
  "util_read_int_bool_int data offset =
     (case util_read_int 4 data offset of
        Inl e \<Rightarrow> Inl e
      | Inr (a, offset) \<Rightarrow>
          (case util_read_bool data offset of
             Inl e \<Rightarrow> Inl e
           | Inr (b, offset) \<Rightarrow>
               (case util_read_int 4 data offset of
                  Inl e \<Rightarrow> Inl e
                | Inr (c, offset) \<Rightarrow> Inr ((a, b, c), offset))))"

definition util_read_buffer :: "bytes \<Rightarrow> nat \<Rightarrow> error + (bytes \<times> nat)" where
  \<comment> \<open>Modelled from the spec: the length-prefixed opaque-buffer reader; a length that is
     negative or runs past the end of the buffer is malformed.\<close>
  "util_read_buffer data offset =
     (case util_read_int 4 data offset of
        Inl e \<Rightarrow> Inl e
      | Inr (len, offset) \<Rightarrow>
          if len < 0 \<or> offset + nat len > length data
          then Inl (DeserializationError ''Bad buffer length: %d'' [len])
          else Inr (take (nat len) (drop offset data), offset + nat len))"

definition util_read_string :: "int \<Rightarrow> bytes \<Rightarrow> nat \<Rightarrow> error + (string \<times> nat)" where
  \<comment> \<open>Modelled from the spec: the length-prefixed string reader with the maximum length
     \<open>maxlen\<close>; a declared length above it raises \<^verbatim>\<open>StringTooLong\<close>, a length that is negative
     or runs past the end of the buffer is malformed.\<close>
  "util_read_string maxlen data offset =
     (case util_read_int 4 data offset of
        Inl e \<Rightarrow> Inl e
      | Inr (len, offset) \<Rightarrow>
          if len > maxlen then Inl StringTooLong
          else if len < 0 \<or> offset + nat len > length data
          then Inl (DeserializationError ''Bad string length: %d'' [len])
          else Inr (map (\<lambda>b. char_of (unat b)) (take (nat len) (drop offset data)),
                    offset + nat len))"

definition util :: readers where
  \<comment> \<open>Modelled from the spec: the readers of \<^verbatim>\<open>util.py\<close> with the maximum string length 1024.\<close>
  "util = \<lparr> read_number = util_read_int 4,
            read_reply_header = util_read_reply_header,
            read_int_int = util_read_int_int,
            read_int_int_long = util_read_int_int_long,
            read_int_bool_int = util_read_int_bool_int,
            read_string = util_read_string 1024,
            read_buffer = util_read_buffer,
            read_bool = util_read_bool \<rparr>"

text \<open>The registry once the module has been imported with these constants.\<close>

definition module_registry :: registry where
  "module_registry =
     (case module_TYPES zookeeper_consts of Inl e \<Rightarrow> Map.empty | Inr TYPES \<Rightarrow> TYPES)"

subsection \<open>Example buffers\<close>

text \<open>
  A create reply for transaction 5 with server transaction id 9, error 0 and the path
  \<^verbatim>\<open>/foo\<close>; the length prefix counts the 24 bytes behind it.
\<close>

definition create_reply :: bytes where
  "create_reply =
     [0, 0, 0, 24,  0, 0, 0, 5,  0, 0, 0, 0, 0, 0, 0, 9,  0, 0, 0, 0,
      0, 0, 0, 4,  47, 102, 111, 111]"

text \<open>
  The create reply for transaction 5 cut off behind its header: the length prefix still
  declares 24 bytes, and the path is missing.
\<close>

definition truncated_create_reply :: bytes where
  "truncated_create_reply =
     [0, 0, 0, 24,  0, 0, 0, 5,  0, 0, 0, 0, 0, 0, 0, 9,  0, 0, 0, 0]"

text \<open>A reply for transaction 7 that carries nothing but its header.\<close>

definition header_only_reply :: bytes where
  "header_only_reply = [0, 0, 0, 16,  0, 0, 0, 7,  0, 0, 0, 0, 0, 0, 0, 9,  0, 0, 0, 0]"

text \<open>A buffer whose length prefix is zero.\<close>

definition empty_reply :: bytes where
  "empty_reply = [0, 0, 0, 0,  0, 0, 0, 7,  0, 0, 0, 0, 0, 0, 0, 9,  0, 0, 0, 0]"

text \<open>
  A connect reply: protocol version 0, timeout 30000, session id 258, a password of 16
  bytes, not read-only.
\<close>

definition connect_reply :: bytes where
  "connect_reply =
     [0, 0, 0, 37,  0, 0, 0, 0,  0, 0, 117, 48,  0, 0, 0, 0, 0, 0, 1, 2,
      0, 0, 0, 16,  1, 2, 3, 4, 5, 6, 7, 8, 9, 10, 11, 12, 13, 14, 15, 16,  0]"

text \<open>The connect reply a server sends for an expired session: timeout 0, session id 0.\<close>

definition expired_connect_reply :: bytes where
  "expired_connect_reply =
     [0, 0, 0, 37,  0, 0, 0, 0,  0, 0, 0, 0,  0, 0, 0, 0, 0, 0, 0, 0,
      0, 0, 0, 16,  0, 0, 0, 0, 0, 0, 0, 0, 0, 0, 0, 0, 0, 0, 0, 0,  0]"

text \<open>
  A watch event: transaction id \<open>-1\<close>, server transaction id \<open>-1\<close>, error 0, then event type 2,
  state 3 and the path \<^verbatim>\<open>/foo\<close>.
\<close>

definition watch_event :: bytes where
  "watch_event =
     [0, 0, 0, 32,  255, 255, 255, 255,  255, 255, 255, 255, 255, 255, 255, 255,  0, 0, 0, 0,
      0, 0, 0, 2,  0, 0, 0, 3,  0, 0, 0, 4,  47, 102, 111, 111]"

text \<open>The same event with a path that declares 2000 bytes, above the maximum of 1024.\<close>

definition long_path_event :: bytes where
  "long_path_event =
     [0, 0, 0, 32,  255, 255, 255, 255,  255, 255, 255, 255, 255, 255, 255, 255,  0, 0, 0, 0,
      0, 0, 0, 2,  0, 0, 0, 3,  0, 0, 7, 208,  47, 102, 111, 111]"

text \<open>A create reply for transaction 5 whose path declares 2000 bytes.\<close>

definition long_path_create_reply :: bytes where
  "long_path_create_reply =
     [0, 0, 0, 24,  0, 0, 0, 5,  0, 0, 0, 0, 0, 0, 0, 9,  0, 0, 0, 0,
      0, 0, 7, 208,  47, 102, 111, 111]"

text \<open>
  A reply for transaction 8 with the error code \<open>-101\<close> and four bytes behind the header
  that would read as the count 3.
\<close>

definition failed_reply :: bytes where
  "failed_reply =
     [0, 0, 0, 20,  0, 0, 0, 8,  0, 0, 0, 0, 0, 0, 0, 9,  255, 255, 255, 155,
      0, 0, 0, 3]"

text \<open>Constants under which \<^verbatim>\<open>CREATE2\<close> repeats the operation code of \<^verbatim>\<open>CREATE\<close>.\<close>

definition clashing_consts :: zookeeper where
  "clashing_consts = zookeeper_consts \<lparr> CREATE2 := 1 \<rparr>"

section \<open>Properties\<close>

subsection \<open>Auxiliary facts about \<^verbatim>\<open>from_payload\<close>\<close>

lemma from_payload_InrE:
  assumes "from_payload zk rd TYPES data client server requests_xids = (Inr m, t)"
  obtains reply_size offset xid zxid err offset' handler where
    "read_number rd data 0 = Inr (reply_size, offset)" "0 < reply_size"
    "read_reply_header rd data offset = Inr ((xid, zxid, err), offset')"
    "handler_for zk TYPES xid requests_xids = (Some handler, t)"
    "with_params rd handler xid zxid err data offset' client server = Inr m"
  using assms unfolding from_payload_def
  by (auto split: sum.splits prod.splits if_splits option.splits)

lemma from_payload_header:
  assumes "read_number rd data 0 = Inr (reply_size, offset)" "0 < reply_size"
    "read_reply_header rd data offset = Inr ((xid, zxid, err), offset')"
  shows "from_payload zk rd TYPES data client server requests_xids =
     (case handler_for zk TYPES xid requests_xids of
        (Some handler, t) \<Rightarrow> (with_params rd handler xid zxid err data offset' client server, t)
      | (None, t) \<Rightarrow> (Inl (DeserializationError ''No handler for xid=%s'' [xid]), t))"
  using assms unfolding from_payload_def by simp

lemma handler_for_lookup:
  assumes "xid \<noteq> WATCH_XID zk" "xid \<noteq> PING_XID zk"
  shows "handler_for zk TYPES xid requests_xids =
     (case requests_xids xid of None \<Rightarrow> None | Some k \<Rightarrow> TYPES k, requests_xids(xid := None))"
  using assms unfolding handler_for_def ServerMessageType_get_def
  by (simp add: Let_def split: option.splits)

lemma WatchEvent_with_params_fields:
  assumes "WatchEvent_with_params rd cl xid zxid error data offset client server = Inr m"
  shows "self_class m = cl \<and> self_xid m = - 1 \<and> self_zxid m = - 1 \<and> self_error m = 0"
  using assms
  unfolding WatchEvent_with_params_def WatchEvent_init_def ServerMessage_init_def
  by (auto split: sum.splits prod.splits)

lemma ConnectReply_with_params_fields:
  assumes "ConnectReply_with_params rd cl xid zxid error data offset client server = Inr m"
  shows "self_class m = cl \<and> self_xid m = 0 \<and> self_zxid m = - 1 \<and> self_error m = 0"
  using assms
  unfolding ConnectReply_with_params_def ConnectReply_init_def ServerMessage_init_def
  by (auto simp: Let_def split: sum.splits prod.splits)

lemma with_params_class:
  assumes "with_params rd cl xid zxid error data offset client server = Inr m"
  shows "self_class m = cl"
proof (cases cl)
  case WatchEvent
  with assms show ?thesis by (simp add: WatchEvent_with_params_fields)
next
  case ConnectReply
  with assms show ?thesis by (simp add: ConnectReply_with_params_fields)
qed (use assms in \<open>auto simp: ServerMessage_with_params_def ServerMessage_init_def
       GetChildrenReply_with_params_def GetChildrenReply_init_def
       CreateReply_with_params_def MultiReply_with_params_def MultiReply_init_def
       split: sum.splits prod.splits if_splits\<close>)

lemma sentinels_of_consts:
  "WATCH_XID zookeeper_consts = - 1" "PING_XID zookeeper_consts = - 2"
  by (simp_all add: zookeeper_consts_def)

subsection \<open>A transaction id is consumed by the reply it is matched to\<close>

text \<open>
  Claim C1.  When the transaction id of the header is neither reserved id and is matched,
  that is, the dictionary has an entry for it and a class is registered under the operation
  code the entry records, the call hands the payload to that class and leaves the
  dictionary without the entry and otherwise unchanged, whether the payload then decodes or
  not (\<^verbatim>\<open>pop\<close> at line 132 runs before \<^verbatim>\<open>with_params\<close> at line 116).  Decoding the same
  buffer again with the dictionary as the first call left it raises the
  \<^verbatim>\<open>DeserializationError\<close> of line 118 (\<^verbatim>\<open>No handler for xid=...\<close>, the module's error for a
  reply that no request resolves) instead of returning a second message.
\<close>

theorem from_payload_consumes_xid:
  assumes "read_number rd data 0 = Inr (reply_size, offset)" and "0 < reply_size"
    and "read_reply_header rd data offset = Inr ((xid, zxid, err), offset')"
    and "xid \<noteq> WATCH_XID zk" and "xid \<noteq> PING_XID zk"
    and "requests_xids xid = Some opcode" and "TYPES opcode = Some handler"
  shows "from_payload zk rd TYPES data client server requests_xids =
      (with_params rd handler xid zxid err data offset' client server,
       requests_xids(xid := None)) \<and>
    (requests_xids(xid := None)) xid = None \<and>
    from_payload zk rd TYPES data client server (requests_xids(xid := None)) =
      (Inl (DeserializationError ''No handler for xid=%s'' [xid]), requests_xids(xid := None))"
proof -
  note f = from_payload_header [OF assms(1,2,3)]
  note l = handler_for_lookup [OF assms(4,5)]
  have "from_payload zk rd TYPES data client server requests_xids =
      (with_params rd handler xid zxid err data offset' client server,
       requests_xids(xid := None))"
    using assms(6,7) by (simp add: f l)
  moreover
  have "from_payload zk rd TYPES data client server (requests_xids(xid := None)) =
      (Inl (DeserializationError ''No handler for xid=%s'' [xid]), requests_xids(xid := None))"
    by (simp add: f l)
  ultimately show ?thesis
    by simp
qed

theorem from_payload_consumes_xid_witness:
  "from_payload zookeeper_consts util module_registry create_reply ''c'' ''s'' [5 \<mapsto> 1] =
     (Inr \<lparr> self_class = CreateReply, self_timestamp = 0, self_auth = '''', self_xid = 5,
            self_zxid = 9, self_error = 0, self_path = ''/foo'', self_client = ''c'',
            self_server = ''s'', self_attrs = No_attrs \<rparr>,
      [5 \<mapsto> 1](5 := None)) \<and>
   from_payload zookeeper_consts util module_registry create_reply ''c'' ''s''
       ([5 \<mapsto> 1](5 := None)) =
     (Inl (DeserializationError ''No handler for xid=%s'' [5]), [5 \<mapsto> 1](5 := None)) \<and>
   from_payload zookeeper_consts util module_registry truncated_create_reply ''c'' ''s''
       [5 \<mapsto> 1] =
     (Inl (DeserializationError ''Cannot unpack %d bytes at offset %d'' [4, 20]),
      [5 \<mapsto> 1](5 := None)) \<and>
   from_payload zookeeper_consts util module_registry truncated_create_reply ''c'' ''s''
       ([5 \<mapsto> 1](5 := None)) =
     (Inl (DeserializationError ''No handler for xid=%s'' [5]), [5 \<mapsto> 1](5 := None))"
proof -
  have s: "5 \<noteq> WATCH_XID zookeeper_consts" "5 \<noteq> PING_XID zookeeper_consts"
    by (simp_all add: sentinels_of_consts)
  have e: "([5 \<mapsto> 1] :: int \<rightharpoonup> int) 5 = Some 1"
    by simp
  have n: "module_registry 1 = Some CreateReply"
    by code_simp
  have p: "(0::int) < 24"
    by simp
  have r: "read_number util create_reply 0 = Inr (24, 4)"
    by code_simp
  have h: "read_reply_header util create_reply 4 = Inr ((5, 9, 0), 20)"
    by code_simp
  have w: "with_params util CreateReply 5 9 0 create_reply 20 ''c'' ''s'' =
     Inr \<lparr> self_class = CreateReply, self_timestamp = 0, self_auth = '''', self_xid = 5,
           self_zxid = 9, self_error = 0, self_path = ''/foo'', self_client = ''c'',
           self_server = ''s'', self_attrs = No_attrs \<rparr>"
    by code_simp
  note t = from_payload_consumes_xid
      [where requests_xids = "[5 \<mapsto> 1]" and TYPES = module_registry
         and client = "''c''" and server = "''s''", OF r p h s e n]
  have r': "read_number util truncated_create_reply 0 = Inr (24, 4)"
    by code_simp
  have h': "read_reply_header util truncated_create_reply 4 = Inr ((5, 9, 0), 20)"
    by code_simp
  have w': "with_params util CreateReply 5 9 0 truncated_create_reply 20 ''c'' ''s'' =
     Inl (DeserializationError ''Cannot unpack %d bytes at offset %d'' [4, 20])"
    by code_simp
  note t' = from_payload_consumes_xid
      [where requests_xids = "[5 \<mapsto> 1]" and TYPES = module_registry
         and client = "''c''" and server = "''s''", OF r' p h' s e n]
  show ?thesis
    by (intro conjI)
      (rule t [THEN conjunct1, unfolded w] t [THEN conjunct2, THEN conjunct2]
            t' [THEN conjunct1, unfolded w'] t' [THEN conjunct2, THEN conjunct2])+
qed

subsection \<open>A failed lookup in the registry still consumes the transaction id\<close>

text \<open>
  Claim C10.  When the transaction id of the header is neither reserved id and the
  dictionary records for it an operation code under which no class is registered,
  \<^verbatim>\<open>handler_for\<close> has removed the entry before \<^verbatim>\<open>from_payload\<close> raises: the call returns no
  message, and the dictionary it leaves lacks the entry.
\<close>

theorem from_payload_unregistered_pops:
  assumes "read_number rd data 0 = Inr (reply_size, offset)" and "0 < reply_size"
    and "read_reply_header rd data offset = Inr ((xid, zxid, err), offset')"
    and "xid \<noteq> WATCH_XID zk" and "xid \<noteq> PING_XID zk"
    and "requests_xids xid = Some opcode" and "TYPES opcode = None"
  shows "from_payload zk rd TYPES data client server requests_xids =
     (Inl (DeserializationError ''No handler for xid=%s'' [xid]), requests_xids(xid := None))"
  using assms by (simp add: from_payload_header handler_for_lookup)

theorem from_payload_unregistered_pops_witness:
  "([7 \<mapsto> 6] :: int \<rightharpoonup> int) 7 = Some 6 \<and> module_registry 6 = None \<and>
   from_payload zookeeper_consts util module_registry header_only_reply ''c'' ''s'' [7 \<mapsto> 6] =
     (Inl (DeserializationError ''No handler for xid=%s'' [7]), [7 \<mapsto> 6](7 := None))"
proof -
  have r: "read_number util header_only_reply 0 = Inr (16, 4)"
    by code_simp
  have p: "(0::int) < 16"
    by simp
  have h: "read_reply_header util header_only_reply 4 = Inr ((7, 9, 0), 20)"
    by code_simp
  have s: "7 \<noteq> WATCH_XID zookeeper_consts" "7 \<noteq> PING_XID zookeeper_consts"
    by (simp_all add: sentinels_of_consts)
  have e: "([7 \<mapsto> 6] :: int \<rightharpoonup> int) 7 = Some 6"
    by simp
  have n: "module_registry 6 = None"
    by code_simp
  from from_payload_unregistered_pops
         [where requests_xids = "[7 \<mapsto> 6]" and TYPES = module_registry, OF r p h s e n] e n
  show ?thesis
    by blast
qed

subsection \<open>The fixed ids of watch events and connect replies\<close>

text \<open>
  Claim C2, as the code has it.  Every watch event that \<^verbatim>\<open>from_payload\<close> returns carries
  the transaction id \<open>-1\<close>, the server transaction id \<open>-1\<close> and the error code 0; every
  connect reply it returns carries the transaction id 0, the server transaction id \<open>-1\<close>
  and the error code 0 (line 188 passes \<^verbatim>\<open>0, -1, 0\<close>), whatever the bytes of the payload.
\<close>

theorem from_payload_fixed_ids:
  assumes "from_payload zk rd TYPES data client server requests_xids = (Inr m, requests_xids')"
  shows "(self_class m = WatchEvent \<longrightarrow>
            self_xid m = - 1 \<and> self_zxid m = - 1 \<and> self_error m = 0) \<and>
         (self_class m = ConnectReply \<longrightarrow>
            self_xid m = 0 \<and> self_zxid m = - 1 \<and> self_error m = 0)"
proof -
  from assms obtain xid zxid err offset' handler where
    w: "with_params rd handler xid zxid err data offset' client server = Inr m"
    by (elim from_payload_InrE)
  then have c: "self_class m = handler"
    by (rule with_params_class)
  have "self_xid m = - 1 \<and> self_zxid m = - 1 \<and> self_error m = 0"
    if "self_class m = WatchEvent"
  proof -
    from that c w
    have "WatchEvent_with_params rd WatchEvent xid zxid err data offset' client server = Inr m"
      by simp
    then show ?thesis
      by (simp add: WatchEvent_with_params_fields)
  qed
  moreover have "self_xid m = 0 \<and> self_zxid m = - 1 \<and> self_error m = 0"
    if "self_class m = ConnectReply"
  proof -
    from that c w
    have "ConnectReply_with_params rd ConnectReply xid zxid err data offset' client server = Inr m"
      by simp
    then show ?thesis
      by (simp add: ConnectReply_with_params_fields)
  qed
  ultimately show ?thesis
    by blast
qed

theorem from_payload_fixed_ids_witness:
  "self_class (projr (fst (from_payload zookeeper_consts util module_registry watch_event
      ''c'' ''s'' Map.empty))) = WatchEvent \<and>
   self_xid (projr (fst (from_payload zookeeper_consts util module_registry watch_event
      ''c'' ''s'' Map.empty))) = - 1 \<and>
   self_zxid (projr (fst (from_payload zookeeper_consts util module_registry watch_event
      ''c'' ''s'' Map.empty))) = - 1 \<and>
   self_error (projr (fst (from_payload zookeeper_consts util module_registry watch_event
      ''c'' ''s'' Map.empty))) = 0 \<and>
   self_class (projr (fst (from_payload zookeeper_consts util module_registry connect_reply
      ''c'' ''s'' [0 \<mapsto> 0]))) = ConnectReply \<and>
   self_xid (projr (fst (from_payload zookeeper_consts util module_registry connect_reply
      ''c'' ''s'' [0 \<mapsto> 0]))) = 0 \<and>
   self_zxid (projr (fst (from_payload zookeeper_consts util module_registry connect_reply
      ''c'' ''s'' [0 \<mapsto> 0]))) = - 1 \<and>
   self_error (projr (fst (from_payload zookeeper_consts util module_registry connect_reply
      ''c'' ''s'' [0 \<mapsto> 0]))) = 0"
proof -
  let ?e = "from_payload zookeeper_consts util module_registry watch_event ''c'' ''s'' Map.empty"
  let ?c = "from_payload zookeeper_consts util module_registry connect_reply ''c'' ''s''
     [0 \<mapsto> 0]"
  have "\<not> isl (fst ?e)"
    by code_simp
  then have e: "?e = (Inr (projr (fst ?e)), snd ?e)"
    by (simp add: prod_eq_iff)
  have ke: "self_class (projr (fst ?e)) = WatchEvent"
    by code_simp
  have "\<not> isl (fst ?c)"
    by code_simp
  then have c: "?c = (Inr (projr (fst ?c)), snd ?c)"
    by (simp add: prod_eq_iff)
  have kc: "self_class (projr (fst ?c)) = ConnectReply"
    by code_simp
  from from_payload_fixed_ids [OF e] from_payload_fixed_ids [OF c] ke kc show ?thesis
    by blast
qed

text \<open>
  The claim as the spec words it gives the connect reply the transaction id \<open>-1\<close>.  The
  connect reply decoded from the example buffer carries the transaction id 0.
\<close>

theorem from_payload_fixed_ids_counterexample:
  "\<not> isl (fst (from_payload zookeeper_consts util module_registry connect_reply
      ''c'' ''s'' [0 \<mapsto> 0])) \<and>
   self_class (projr (fst (from_payload zookeeper_consts util module_registry connect_reply
      ''c'' ''s'' [0 \<mapsto> 0]))) = ConnectReply \<and>
   self_xid (projr (fst (from_payload zookeeper_consts util module_registry connect_reply
      ''c'' ''s'' [0 \<mapsto> 0]))) \<noteq> - 1"
  by code_simp

subsection \<open>A length prefix that is not positive\<close>

text \<open>
  Claim C3, as the code has it.  When the length prefix read at offset 0 is zero or
  negative, \<^verbatim>\<open>from_payload\<close> raises \<^verbatim>\<open>DeserializationError\<close> with the message of line 111, the
  one exception class the module raises for every decoding failure, and leaves the
  dictionary as it was.  The result depends on no reader but \<^verbatim>\<open>read_number\<close>: neither the
  header nor any field of the payload is read.
\<close>

theorem from_payload_bad_length:
  assumes "read_number rd data 0 = Inr (reply_size, offset)" and "reply_size \<le> 0"
  shows "from_payload zk rd TYPES data client server requests_xids =
     (Inl (DeserializationError ''Bad reply length: %d'' [reply_size]), requests_xids)"
  using assms unfolding from_payload_def by simp

theorem from_payload_bad_length_witness:
  "read_number util empty_reply 0 = Inr (0, 4) \<and>
   from_payload zookeeper_consts util module_registry empty_reply ''c'' ''s'' [7 \<mapsto> 4] =
     (Inl (DeserializationError ''Bad reply length: %d'' [0]), [7 \<mapsto> 4])"
proof -
  have r: "read_number util empty_reply 0 = Inr (0, 4)"
    by code_simp
  have n: "(0::int) \<le> 0"
    by simp
  from from_payload_bad_length [OF r n] r show ?thesis
    by blast
qed

text \<open>
  The claim as the spec words it has a kind of error for this case that differs from the
  catch-all \<^verbatim>\<open>DeserializationError\<close>.  The module has one class: the buffer with the length
  prefix 0 and the reply that no request resolves both raise \<^verbatim>\<open>DeserializationError\<close>.
\<close>

theorem from_payload_bad_length_counterexample:
  "fst (from_payload zookeeper_consts util module_registry empty_reply ''c'' ''s'' Map.empty) =
     Inl (DeserializationError ''Bad reply length: %d'' [0]) \<and>
   fst (from_payload zookeeper_consts util module_registry header_only_reply ''c'' ''s''
          Map.empty) =
     Inl (DeserializationError ''No handler for xid=%s'' [7])"
  by code_simp

subsection \<open>One class for every operation code\<close>

lemma ServerMessageType_new_keeps:
  "ServerMessageType_new TYPES obj key = Inr TYPES' \<Longrightarrow> TYPES k = Some c \<Longrightarrow>
     TYPES' k = Some c"
  unfolding ServerMessageType_new_def by (auto split: if_splits option.splits)

lemma ServerMessageType_new_registers:
  "ServerMessageType_new TYPES obj (Some k) = Inr TYPES' \<Longrightarrow> TYPES' k = Some obj"
  unfolding ServerMessageType_new_def by (auto split: if_splits)

lemma ServerMessageType_new_error:
  "ServerMessageType_new TYPES obj key = Inl e \<Longrightarrow>
     \<exists>a. e = ValueError ''Duplicate class/opcode name: %s'' a"
  unfolding ServerMessageType_new_def by (auto split: if_splits)

lemma create_classes_keeps:
  "create_classes zk cs TYPES = Inr TYPES' \<Longrightarrow> TYPES k = Some c \<Longrightarrow> TYPES' k = Some c"
proof (induction cs arbitrary: TYPES)
  case Nil
  then show ?case by simp
next
  case (Cons obj rest)
  from Cons.prems(1) obtain T where
    n: "ServerMessageType_new TYPES obj (OPCODE zk obj) = Inr T"
    and r: "create_classes zk rest T = Inr TYPES'"
    by (auto split: sum.splits)
  from n Cons.prems(2) have "T k = Some c"
    by (rule ServerMessageType_new_keeps)
  with r show ?case by (rule Cons.IH)
qed

lemma create_classes_registers:
  "create_classes zk cs TYPES = Inr TYPES' \<Longrightarrow> obj \<in> set cs \<Longrightarrow> OPCODE zk obj = Some k \<Longrightarrow>
     TYPES' k = Some obj"
proof (induction cs arbitrary: TYPES)
  case Nil
  then show ?case by simp
next
  case (Cons x rest)
  from Cons.prems(1) obtain T where
    n: "ServerMessageType_new TYPES x (OPCODE zk x) = Inr T"
    and r: "create_classes zk rest T = Inr TYPES'"
    by (auto split: sum.splits)
  show ?case
  proof (cases "obj = x")
    case True
    with n Cons.prems(3) have "T k = Some obj"
      by (simp add: ServerMessageType_new_registers)
    with r show ?thesis by (rule create_classes_keeps)
  next
    case False
    with Cons.prems(2) have "obj \<in> set rest" by simp
    with r show ?thesis using Cons.prems(3) by (rule Cons.IH)
  qed
qed

lemma create_classes_error:
  "create_classes zk cs TYPES = Inl e \<Longrightarrow>
     \<exists>a. e = ValueError ''Duplicate class/opcode name: %s'' a"
proof (induction cs arbitrary: TYPES)
  case Nil
  then show ?case by simp
next
  case (Cons x rest)
  show ?case
  proof (cases "ServerMessageType_new TYPES x (OPCODE zk x)")
    case (Inl e')
    with Cons.prems have "e' = e" by simp
    with Inl show ?thesis by (simp add: ServerMessageType_new_error)
  next
    case (Inr T)
    with Cons.prems have "create_classes zk rest T = Inl e" by simp
    then show ?thesis by (rule Cons.IH)
  qed
qed

text \<open>
  Claim C4.  \<^verbatim>\<open>__new__\<close> raises the \<^verbatim>\<open>ValueError\<close> of line 49 (the module's error for a
  duplicate operation code) for a class whose operation code is a key of the registry; so
  creating the classes of a module of which two declare the same operation code aborts with
  that error.  Where the classes are created without error, an entry of the registry is
  never replaced, so an operation code is bound to one class at most.
\<close>

theorem ServerMessageType_new_duplicate:
  "(TYPES opcode = Some c \<longrightarrow>
      ServerMessageType_new TYPES obj (Some opcode) =
        Inl (ValueError ''Duplicate class/opcode name: %s'' [opcode])) \<and>
   (obj \<in> set cs \<and> obj' \<in> set cs \<and> obj \<noteq> obj' \<and>
    OPCODE zk obj = Some opcode \<and> OPCODE zk obj' = Some opcode \<longrightarrow>
      (\<exists>a. create_classes zk cs TYPES =
             Inl (ValueError ''Duplicate class/opcode name: %s'' a))) \<and>
   (create_classes zk cs TYPES = Inr TYPES' \<and> TYPES opcode = Some c \<longrightarrow>
      TYPES' opcode = Some c)"
proof (intro conjI impI)
  assume "TYPES opcode = Some c"
  then show "ServerMessageType_new TYPES obj (Some opcode) =
      Inl (ValueError ''Duplicate class/opcode name: %s'' [opcode])"
    by (simp add: ServerMessageType_new_def)
next
  assume a: "obj \<in> set cs \<and> obj' \<in> set cs \<and> obj \<noteq> obj' \<and>
    OPCODE zk obj = Some opcode \<and> OPCODE zk obj' = Some opcode"
  show "\<exists>a. create_classes zk cs TYPES = Inl (ValueError ''Duplicate class/opcode name: %s'' a)"
  proof (cases "create_classes zk cs TYPES")
    case (Inl e)
    then show ?thesis using create_classes_error by blast
  next
    case (Inr T)
    with a have "T opcode = Some obj" and "T opcode = Some obj'"
      by (blast intro: create_classes_registers)+
    with a show ?thesis by simp
  qed
next
  assume "create_classes zk cs TYPES = Inr TYPES' \<and> TYPES opcode = Some c"
  then show "TYPES' opcode = Some c"
    using create_classes_keeps by blast
qed

theorem ServerMessageType_new_duplicate_witness:
  "ServerMessageType_new [1 \<mapsto> CreateReply] Create2Reply (Some 1) =
     Inl (ValueError ''Duplicate class/opcode name: %s'' [1]) \<and>
   (\<exists>a. module_TYPES clashing_consts = Inl (ValueError ''Duplicate class/opcode name: %s'' a)) \<and>
   create_classes zookeeper_consts [PingReply] [1 \<mapsto> CreateReply] =
     Inr [1 \<mapsto> CreateReply, 11 \<mapsto> PingReply] \<and>
   [1 \<mapsto> CreateReply, 11 \<mapsto> PingReply] (1::int) = Some CreateReply"
proof -
  have p: "([1 \<mapsto> CreateReply] :: registry) 1 = Some CreateReply"
    by simp
  have "CreateReply \<in> set module_classes \<and> Create2Reply \<in> set module_classes \<and>
    CreateReply \<noteq> Create2Reply \<and>
    OPCODE clashing_consts CreateReply = Some 1 \<and> OPCODE clashing_consts Create2Reply = Some 1"
    by (simp add: module_classes_def clashing_consts_def zookeeper_consts_def)
  with ServerMessageType_new_duplicate
         [where obj = CreateReply and obj' = Create2Reply and cs = module_classes
            and zk = clashing_consts and opcode = 1 and TYPES = Map.empty]
  have two: "\<exists>a. module_TYPES clashing_consts =
      Inl (ValueError ''Duplicate class/opcode name: %s'' a)"
    unfolding module_TYPES_def by blast
  have k: "create_classes zookeeper_consts [PingReply] [1 \<mapsto> CreateReply] =
     Inr [1 \<mapsto> CreateReply, 11 \<mapsto> PingReply]"
    by (simp add: ServerMessageType_new_def zookeeper_consts_def)
  note t = ServerMessageType_new_duplicate
         [where TYPES = "[1 \<mapsto> CreateReply]" and opcode = 1 and c = CreateReply
            and obj = Create2Reply and cs = "[PingReply]" and zk = zookeeper_consts
            and TYPES' = "[1 \<mapsto> CreateReply, 11 \<mapsto> PingReply]"]
  from t p have one: "ServerMessageType_new [1 \<mapsto> CreateReply] Create2Reply (Some 1) =
     Inl (ValueError ''Duplicate class/opcode name: %s'' [1])"
    by blast
  from t p k have "[1 \<mapsto> CreateReply, 11 \<mapsto> PingReply] (1::int) = Some CreateReply"
    by blast
  with one two k show ?thesis
    by blast
qed

subsection \<open>Replies that carry an error code\<close>

text \<open>
  Claim C5.  When the error code of the header is not zero and the handler is one of the
  two children-listing replies, the message has the count 0; when it is one of the two
  create replies, the message has the empty path and the offset behind the \<^verbatim>\<open>try\<close>
  statement is the offset behind the header.  Neither result depends on the buffer or on a
  reader beyond the length prefix and the header, so no byte of the payload is consumed.
\<close>

theorem from_payload_error_defaults:
  assumes "read_number rd data 0 = Inr (reply_size, offset)" and "0 < reply_size"
    and "read_reply_header rd data offset = Inr ((xid, zxid, err), offset')"
    and "err \<noteq> 0"
    and "handler_for zk TYPES xid requests_xids = (Some handler, requests_xids')"
  shows "(handler = GetChildrenReply \<or> handler = GetChildren2Reply \<longrightarrow>
            from_payload zk rd TYPES data client server requests_xids =
              (Inr \<lparr> self_class = handler, self_timestamp = 0, self_auth = '''',
                     self_xid = xid, self_zxid = zxid, self_error = err, self_path = '''',
                     self_client = client, self_server = server,
                     self_attrs = GetChildrenReply_attrs 0 \<rparr>,
               requests_xids')) \<and>
         (handler = CreateReply \<or> handler = Create2Reply \<longrightarrow>
            from_payload zk rd TYPES data client server requests_xids =
              (Inr \<lparr> self_class = handler, self_timestamp = 0, self_auth = '''',
                     self_xid = xid, self_zxid = zxid, self_error = err, self_path = '''',
                     self_client = client, self_server = server, self_attrs = No_attrs \<rparr>,
               requests_xids') \<and>
            CreateReply_try rd err data offset' = Inr ('''', offset'))"
proof -
  note f = from_payload_header [OF assms(1,2,3), of zk TYPES client server requests_xids]
  have "from_payload zk rd TYPES data client server requests_xids =
      (with_params rd handler xid zxid err data offset' client server, requests_xids')"
    using f assms(5) by simp
  moreover have "with_params rd handler xid zxid err data offset' client server =
      Inr (GetChildrenReply_init handler xid zxid err 0 client server)"
    if "handler = GetChildrenReply \<or> handler = GetChildren2Reply"
    using that assms(4) by (auto simp: GetChildrenReply_with_params_def)
  moreover have t: "CreateReply_try rd err data offset' = Inr ('''', offset')"
    using assms(4) by (simp add: CreateReply_try_def)
  moreover have "with_params rd handler xid zxid err data offset' client server =
      Inr (ServerMessage_init handler No_attrs xid zxid err '''' client server)"
    if "handler = CreateReply \<or> handler = Create2Reply"
    using that t by (auto simp: CreateReply_with_params_def)
  ultimately show ?thesis
    by (simp add: GetChildrenReply_init_def ServerMessage_init_def)
qed

theorem from_payload_error_defaults_witness:
  "read_reply_header util failed_reply 4 = Inr ((8, 9, - 101), 20) \<and>
   read_number util failed_reply 20 = Inr (3, 24) \<and>
   from_payload zookeeper_consts util module_registry failed_reply ''c'' ''s'' [8 \<mapsto> 8] =
     (Inr \<lparr> self_class = GetChildrenReply, self_timestamp = 0, self_auth = '''',
            self_xid = 8, self_zxid = 9, self_error = - 101, self_path = '''',
            self_client = ''c'', self_server = ''s'',
            self_attrs = GetChildrenReply_attrs 0 \<rparr>,
      [8 \<mapsto> 8](8 := None)) \<and>
   from_payload zookeeper_consts util module_registry failed_reply ''c'' ''s'' [8 \<mapsto> 1] =
     (Inr \<lparr> self_class = CreateReply, self_timestamp = 0, self_auth = '''',
            self_xid = 8, self_zxid = 9, self_error = - 101, self_path = '''',
            self_client = ''c'', self_server = ''s'', self_attrs = No_attrs \<rparr>,
      [8 \<mapsto> 1](8 := None)) \<and>
   CreateReply_try util (- 101) failed_reply 20 = Inr ('''', 20)"
proof -
  have r: "read_number util failed_reply 0 = Inr (20, 4)"
    by code_simp
  have p: "(0::int) < 20"
    by simp
  have h: "read_reply_header util failed_reply 4 = Inr ((8, 9, - 101), 20)"
    by code_simp
  have e: "(- 101 :: int) \<noteq> 0"
    by simp
  have c: "read_number util failed_reply 20 = Inr (3, 24)"
    by code_simp
  have s: "8 \<noteq> WATCH_XID zookeeper_consts" "8 \<noteq> PING_XID zookeeper_consts"
    by (simp_all add: sentinels_of_consts)
  have "module_registry 8 = Some GetChildrenReply"
    by code_simp
  then have g: "handler_for zookeeper_consts module_registry 8 [8 \<mapsto> 8] =
      (Some GetChildrenReply, [8 \<mapsto> 8](8 := None))"
    by (simp add: handler_for_lookup [OF s])
  have "module_registry 1 = Some CreateReply"
    by code_simp
  then have k: "handler_for zookeeper_consts module_registry 8 [8 \<mapsto> 1] =
      (Some CreateReply, [8 \<mapsto> 1](8 := None))"
    by (simp add: handler_for_lookup [OF s])
  from from_payload_error_defaults [OF r p h e g] from_payload_error_defaults [OF r p h e k] h c
  show ?thesis
    by blast
qed

subsection \<open>The layout of the connect reply\<close>

text \<open>
  Claim C6.  When the handler is \<^verbatim>\<open>ConnectReply\<close>, the header that \<^verbatim>\<open>from_payload\<close> has read
  and the offset behind it are ignored: the fields are read from the offset
  \<^verbatim>\<open>INT_STRUCT.size\<close>, which is 4, the offset behind the length prefix, in the order protocol
  version, timeout and session id (\<^verbatim>\<open>read_int_int_long\<close>), then the password
  (\<^verbatim>\<open>read_buffer\<close>), then the read-only flag (\<^verbatim>\<open>read_bool\<close>), each reader starting at the offset
  its predecessor returned; the message holds exactly these values.
\<close>

theorem from_payload_ConnectReply:
  assumes "read_number rd data 0 = Inr (reply_size, offset)" and "0 < reply_size"
    and "read_reply_header rd data offset = Inr ((xid, zxid, err), offset')"
    and "handler_for zk TYPES xid requests_xids = (Some ConnectReply, requests_xids')"
    and "read_int_int_long rd data INT_STRUCT_size = Inr ((protocol, timeout, session), offset1)"
    and "read_buffer rd data offset1 = Inr (passwd, offset2)"
    and "read_bool rd data offset2 = Inr (readonly, offset3)"
  shows "INT_STRUCT_size = 4 \<and>
    from_payload zk rd TYPES data client server requests_xids =
     (Inr \<lparr> self_class = ConnectReply, self_timestamp = 0, self_auth = '''', self_xid = 0,
            self_zxid = - 1, self_error = 0, self_path = '''', self_client = client,
            self_server = server,
            self_attrs = ConnectReply_attrs protocol timeout session passwd readonly \<rparr>,
      requests_xids')"
  using assms
  by (simp add: from_payload_header ConnectReply_with_params_def ConnectReply_init_def
      ServerMessage_init_def INT_STRUCT_size_def)

theorem from_payload_ConnectReply_witness:
  "read_reply_header util connect_reply 4 = Inr ((0, 30000 * 2 ^ 32, 258), 20) \<and>
   read_int_int_long util connect_reply 4 = Inr ((0, 30000, 258), 20) \<and>
   read_buffer util connect_reply 20 =
     Inr ([1, 2, 3, 4, 5, 6, 7, 8, 9, 10, 11, 12, 13, 14, 15, 16], 40) \<and>
   read_bool util connect_reply 40 = Inr (False, 41) \<and>
   from_payload zookeeper_consts util module_registry connect_reply ''c'' ''s'' [0 \<mapsto> 0] =
     (Inr \<lparr> self_class = ConnectReply, self_timestamp = 0, self_auth = '''', self_xid = 0,
            self_zxid = - 1, self_error = 0, self_path = '''', self_client = ''c'',
            self_server = ''s'',
            self_attrs = ConnectReply_attrs 0 30000 258
              [1, 2, 3, 4, 5, 6, 7, 8, 9, 10, 11, 12, 13, 14, 15, 16] False \<rparr>,
      [0 \<mapsto> 0](0 := None))"
proof -
  have r: "read_number util connect_reply 0 = Inr (37, 4)"
    by code_simp
  have p: "(0::int) < 37"
    by simp
  have h: "read_reply_header util connect_reply 4 = Inr ((0, 30000 * 2 ^ 32, 258), 20)"
    by code_simp
  have s: "0 \<noteq> WATCH_XID zookeeper_consts" "0 \<noteq> PING_XID zookeeper_consts"
    by (simp_all add: sentinels_of_consts)
  have "module_registry 0 = Some ConnectReply"
    by code_simp
  then have g: "handler_for zookeeper_consts module_registry 0 [0 \<mapsto> 0] =
      (Some ConnectReply, [0 \<mapsto> 0](0 := None))"
    by (simp add: handler_for_lookup [OF s])
  have a: "read_int_int_long util connect_reply INT_STRUCT_size = Inr ((0, 30000, 258), 20)"
    by code_simp
  have b: "read_buffer util connect_reply 20 =
     Inr ([1, 2, 3, 4, 5, 6, 7, 8, 9, 10, 11, 12, 13, 14, 15, 16], 40)"
    by code_simp
  have c: "read_bool util connect_reply 40 = Inr (False, 41)"
    by code_simp
  note t = from_payload_ConnectReply [OF r p h g a b c]
  from t have "INT_STRUCT_size = 4"
    by blast
  with a have "read_int_int_long util connect_reply 4 = Inr ((0, 30000, 258), 20)"
    by simp
  with t h b c show ?thesis
    by blast
qed

subsection \<open>A path that is too long\<close>

text \<open>
  Claim C7, as the code has it.  When \<^verbatim>\<open>read_string\<close> raises \<^verbatim>\<open>StringTooLong\<close> for the path,
  \<^verbatim>\<open>with_params\<close> of the watch event and of the two create replies does not raise: the
  message is built with the literal \<^verbatim>\<open>path-too-long\<close> as its path, so the caller sees no
  error.  The path is the last field either method reads, and behind the \<^verbatim>\<open>try\<close> statement
  the offset is the one at which the string was to be read, as the reader returned no
  offset when it raised.
\<close>

theorem with_params_StringTooLong:
  assumes "read_string rd data offset = Inl StringTooLong"
  shows "(read_int_int rd data offset0 = Inr ((event_type, state), offset) \<longrightarrow>
            with_params rd WatchEvent xid zxid error data offset0 client server =
              Inr \<lparr> self_class = WatchEvent, self_timestamp = 0, self_auth = '''',
                    self_xid = - 1, self_zxid = - 1, self_error = 0,
                    self_path = ''path-too-long'', self_client = client,
                    self_server = server,
                    self_attrs = WatchEvent_attrs event_type state \<rparr>) \<and>
         (handler = CreateReply \<or> handler = Create2Reply \<longrightarrow>
            with_params rd handler xid zxid 0 data offset client server =
              Inr \<lparr> self_class = handler, self_timestamp = 0, self_auth = '''',
                    self_xid = xid, self_zxid = zxid, self_error = 0,
                    self_path = ''path-too-long'', self_client = client,
                    self_server = server, self_attrs = No_attrs \<rparr>) \<and>
         WatchEvent_try rd data offset = Inr (''path-too-long'', offset) \<and>
         CreateReply_try rd 0 data offset = Inr (''path-too-long'', offset)"
  using assms
  by (auto simp: WatchEvent_with_params_def WatchEvent_try_def CreateReply_with_params_def
      CreateReply_try_def WatchEvent_init_def ServerMessage_init_def)

theorem with_params_StringTooLong_witness:
  "read_string util long_path_event 28 = Inl StringTooLong \<and>
   read_int_int util long_path_event 20 = Inr ((2, 3), 28) \<and>
   with_params util WatchEvent (- 1) (- 1) 0 long_path_event 20 ''c'' ''s'' =
     Inr \<lparr> self_class = WatchEvent, self_timestamp = 0, self_auth = '''',
           self_xid = - 1, self_zxid = - 1, self_error = 0,
           self_path = ''path-too-long'', self_client = ''c'', self_server = ''s'',
           self_attrs = WatchEvent_attrs 2 3 \<rparr> \<and>
   read_string util long_path_create_reply 20 = Inl StringTooLong \<and>
   with_params util CreateReply 5 9 0 long_path_create_reply 20 ''c'' ''s'' =
     Inr \<lparr> self_class = CreateReply, self_timestamp = 0, self_auth = '''',
           self_xid = 5, self_zxid = 9, self_error = 0,
           self_path = ''path-too-long'', self_client = ''c'', self_server = ''s'',
           self_attrs = No_attrs \<rparr> \<and>
   CreateReply_try util 0 long_path_create_reply 20 = Inr (''path-too-long'', 20)"
proof -
  have e: "read_string util long_path_event 28 = Inl StringTooLong"
    by code_simp
  have i: "read_int_int util long_path_event 20 = Inr ((2, 3), 28)"
    by code_simp
  have c: "read_string util long_path_create_reply 20 = Inl StringTooLong"
    by code_simp
  have w: "with_params util WatchEvent (- 1) (- 1) 0 long_path_event 20 ''c'' ''s'' =
     Inr \<lparr> self_class = WatchEvent, self_timestamp = 0, self_auth = '''',
           self_xid = - 1, self_zxid = - 1, self_error = 0,
           self_path = ''path-too-long'', self_client = ''c'', self_server = ''s'',
           self_attrs = WatchEvent_attrs 2 3 \<rparr>"
    by (rule with_params_StringTooLong [OF e, THEN conjunct1, THEN mp, OF i])
  have k: "with_params util CreateReply 5 9 0 long_path_create_reply 20 ''c'' ''s'' =
     Inr \<lparr> self_class = CreateReply, self_timestamp = 0, self_auth = '''',
           self_xid = 5, self_zxid = 9, self_error = 0,
           self_path = ''path-too-long'', self_client = ''c'', self_server = ''s'',
           self_attrs = No_attrs \<rparr>"
    by (rule with_params_StringTooLong
          [OF c, THEN conjunct2, THEN conjunct1, THEN mp, OF disjI1 [OF refl]])
  have t: "CreateReply_try util 0 long_path_create_reply 20 = Inr (''path-too-long'', 20)"
    by (rule with_params_StringTooLong
          [OF c, THEN conjunct2, THEN conjunct2, THEN conjunct2])
  show ?thesis
    by (intro conjI) (rule e i w c k t)+
qed

text \<open>
  The claim as the spec words it has the decoder go on from an advanced offset that the
  reader reported.  For the watch event whose path declares 2000 bytes the reader raises
  and reports no offset, and behind the \<^verbatim>\<open>try\<close> statement the offset is still 28, the
  offset in front of the length of the string.
\<close>

theorem with_params_StringTooLong_counterexample:
  "read_string util long_path_event 28 = Inl StringTooLong \<and>
   WatchEvent_try util long_path_event 28 = Inr (''path-too-long'', 28) \<and>
   read_number util long_path_event 28 = Inr (2000, 32)"
  by code_simp

subsection \<open>The name of a connect reply\<close>

text \<open>
  Claim C8.  For a connect reply that \<^verbatim>\<open>from_payload\<close> returns: when its timeout is zero or
  negative its name is \<^verbatim>\<open>SessionExpiration\<close>, and stays so whatever error code the message is
  given; when its timeout is positive its name is the one every class inherits, which is
  \<^verbatim>\<open>ConnectReply\<close> as the error code of a connect reply is 0.  The name is a function of the
  message that returns a string: it changes neither the message nor the outcome of the
  decoding.
\<close>

theorem ConnectReply_name:
  assumes "from_payload zk rd TYPES data client server requests_xids = (Inr m, requests_xids')"
    and "self_class m = ConnectReply"
  shows "(self_timeout (self_attrs m) \<le> 0 \<longrightarrow>
            name m = ''SessionExpiration'' \<and>
            name (m\<lparr>self_error := e\<rparr>) = ''SessionExpiration'') \<and>
         (0 < self_timeout (self_attrs m) \<longrightarrow>
            name m = ServerMessage_name m \<and> name m = ''ConnectReply'')"
proof -
  from assms(1) obtain xid zxid err offset' handler where
    w: "with_params rd handler xid zxid err data offset' client server = Inr m"
    by (elim from_payload_InrE)
  then have "self_class m = handler"
    by (rule with_params_class)
  with w assms(2)
  have "ConnectReply_with_params rd ConnectReply xid zxid err data offset' client server = Inr m"
    by simp
  then have "self_error m = 0"
    by (simp add: ConnectReply_with_params_fields)
  with assms(2) show ?thesis
    by (simp add: name_def ServerMessage_name_def)
qed

theorem ConnectReply_name_witness:
  "self_timeout (self_attrs (projr (fst (from_payload zookeeper_consts util module_registry
      expired_connect_reply ''c'' ''s'' [0 \<mapsto> 0])))) = 0 \<and>
   name (projr (fst (from_payload zookeeper_consts util module_registry
      expired_connect_reply ''c'' ''s'' [0 \<mapsto> 0]))) = ''SessionExpiration'' \<and>
   self_timeout (self_attrs (projr (fst (from_payload zookeeper_consts util module_registry
      connect_reply ''c'' ''s'' [0 \<mapsto> 0])))) = 30000 \<and>
   name (projr (fst (from_payload zookeeper_consts util module_registry
      connect_reply ''c'' ''s'' [0 \<mapsto> 0]))) = ''ConnectReply''"
proof -
  let ?x = "from_payload zookeeper_consts util module_registry expired_connect_reply ''c'' ''s''
     [0 \<mapsto> 0]"
  let ?c = "from_payload zookeeper_consts util module_registry connect_reply ''c'' ''s''
     [0 \<mapsto> 0]"
  have "\<not> isl (fst ?x)"
    by code_simp
  then have x: "?x = (Inr (projr (fst ?x)), snd ?x)"
    by (simp add: prod_eq_iff)
  have kx: "self_class (projr (fst ?x)) = ConnectReply"
    by code_simp
  have tx: "self_timeout (self_attrs (projr (fst ?x))) = 0"
    by code_simp
  have "\<not> isl (fst ?c)"
    by code_simp
  then have c: "?c = (Inr (projr (fst ?c)), snd ?c)"
    by (simp add: prod_eq_iff)
  have kc: "self_class (projr (fst ?c)) = ConnectReply"
    by code_simp
  have tc: "self_timeout (self_attrs (projr (fst ?c))) = 30000"
    by code_simp
  from tx have lx: "self_timeout (self_attrs (projr (fst ?x))) \<le> 0"
    by simp
  from tc have lc: "0 < self_timeout (self_attrs (projr (fst ?c)))"
    by simp
  from ConnectReply_name [OF x kx, where e = 0] lx
  have "name (projr (fst ?x)) = ''SessionExpiration''"
    by blast
  moreover from ConnectReply_name [OF c kc, where e = 0] lc
  have "name (projr (fst ?c)) = ''ConnectReply''"
    by blast
  ultimately show ?thesis
    using tx tc by blast
qed

end
